theory Spec2Isabelle
  imports Main
begin

section \<open>Python values, type hints and exceptions\<close>

text \<open>
  The validation engine of \<^verbatim>\<open>sanic_ext/extras/validation/check.py\<close> works on untyped
  request data. The values it sees are modelled by \<open>pyval\<close>: \<open>None\<close>, booleans, unbounded
  integers, byte strings, lists, dicts (an association list in insertion order), the two
  "missing" sentinels (\<^verbatim>\<open>dataclasses._HAS_DEFAULT_FACTORY\<close> and \<^verbatim>\<open>attrs.NOTHING\<close>) and
  instances of model classes. Floats are left out.
\<close>

datatype pyval =
    VNone
  | VBool bool
  | VInt int
  | VStr string
  | VList "pyval list"
  | VDict "(pyval \<times> pyval) list"
  | HAS_DEFAULT_FACTORY
  | NOTHING
  | VObj string "(string \<times> pyval) list"

text \<open>How a parameter of a model's constructor gets its value when the caller omits it.\<close>

datatype pdefault = Required | Default pyval | Factory pyval

datatype gorigin = OUnion | OUnionType | OLiteral | OList | ODict

text \<open>
  What the field \<^verbatim>\<open>Hint.hint\<close> can hold: a builtin class, \<^verbatim>\<open>typing.Any\<close>, a model class
  (its name and the parameters of its generated constructor), a literal value, or a
  subscripted generic such as \<^verbatim>\<open>Optional[int]\<close> = \<open>Generic OUnion [TyInt, TyNoneType]\<close>.
\<close>

datatype pyhint =
    TyStr | TyInt | TyBool | TyNoneType | TyList | TyDict
  | TyAny
  | TyModel string "(string \<times> pdefault) list"
  | Lit pyval
  | Generic gorigin "pyhint list"

text \<open>
  An error message is kept as its format template together with the values formatted
  into it; the rendering of the values to text is not modelled.
\<close>

datatype msg =
    MNotDict pyval                  \<comment> \<open>\<^verbatim>\<open>Value '{data}' is not a dict\<close>\<close>
  | MMustBe pyval pyhint            \<comment> \<open>\<^verbatim>\<open>Value '{value}' must be {expected}\<close>\<close>
  | MNotOfType pyval pyhint         \<comment> \<open>\<^verbatim>\<open>Value '{value}' is not of type {expected}\<close>\<close>
  | MCannotBeNone                   \<comment> \<open>\<^verbatim>\<open>Value cannot be None\<close>\<close>
  | MOneOfOrNone pyval "pyhint list" \<comment> \<open>\<^verbatim>\<open>Value '{value}' must be one of {options}, or None\<close>\<close>
  | MOneOf pyval "pyhint list"      \<comment> \<open>\<^verbatim>\<open>Value '{value}' must be one of {options}\<close>\<close>
  | MMustBeA pyval pyhint           \<comment> \<open>\<^verbatim>\<open>Value '{value}' must be a {hint}\<close>\<close>
  | MNoConvertNone pyval            \<comment> \<open>\<^verbatim>\<open>Could not convert {value} to None\<close>\<close>
  | MInvalidTruth string            \<comment> \<open>\<^verbatim>\<open>Invalid truth value {val}\<close>\<close>
  | MBuiltin string                 \<comment> \<open>a message of the interpreter\<close>

datatype exc =
    ValueError msg
  | TypeError msg
  | AttributeError string
  | KeyError string
  | RecursionError

type_synonym 'a result = "exc + 'a"

datatype Hint = Hint
  (hint: pyhint)
  (model: bool)
  (literal: bool)
  (typed: bool)
  (nullable: bool)
  (origin: "gorigin option")
  (allowed: "Hint list")
  (allow_missing: bool)

text \<open>A schema entry: the recorded constructor signature and the hints by field name.\<close>

record schema_entry =
  sig :: "(string \<times> pyval option) list"
  hints :: "(string \<times> Hint) list"

type_synonym schema = "(string \<times> schema_entry) list"

section \<open>The interpreter's builtins used by the engine\<close>

subsection \<open>Equality and instance checks\<close>

text \<open>
  Python's \<^verbatim>\<open>==\<close> on the modelled values: \<^verbatim>\<open>True == 1\<close> holds, lists compare
  elementwise, dicts regardless of order, instances of a dataclass field by field, and a
  sentinel equals only itself.
\<close>

fun py_eq :: "pyval \<Rightarrow> pyval \<Rightarrow> bool" where
  "py_eq VNone VNone = True"
| "py_eq (VBool a) (VBool b) = (a = b)"
| "py_eq (VBool a) (VInt i) = ((if a then 1 else 0) = i)"
| "py_eq (VInt i) (VBool b) = (i = (if b then 1 else 0))"
| "py_eq (VInt i) (VInt j) = (i = j)"
| "py_eq (VStr s) (VStr t) = (s = t)"
| "py_eq (VList xs) (VList ys) = list_all2 py_eq xs ys"
| "py_eq (VDict d) (VDict e) =
     (length d = length e \<and>
      list_all (\<lambda>kv. list_ex (\<lambda>kw. py_eq (fst kv) (fst kw) \<and> py_eq (snd kv) (snd kw)) e) d)"
| "py_eq HAS_DEFAULT_FACTORY HAS_DEFAULT_FACTORY = True"
| "py_eq NOTHING NOTHING = True"
| "py_eq (VObj n fs) (VObj m gs) =
     (n = m \<and> list_all2 (\<lambda>f g. fst f = fst g \<and> py_eq (snd f) (snd g)) fs gs)"
| "py_eq _ _ = False"

text \<open>
  \<^verbatim>\<open>isinstance(value, t)\<close>, with the semantics of Python 3.10 and later: \<^verbatim>\<open>bool\<close> is a
  subclass of \<^verbatim>\<open>int\<close>; a union of classes is checked alternative by alternative and
  stops at the first match; \<^verbatim>\<open>Any\<close>, a literal value and every other subscripted generic
  raise \<^verbatim>\<open>TypeError\<close>.
\<close>

fun py_isinstance :: "pyval \<Rightarrow> pyhint \<Rightarrow> bool result"
  and isinstance_any :: "pyval \<Rightarrow> pyhint list \<Rightarrow> bool result" where
  "py_isinstance v TyStr = Inr (case v of VStr _ \<Rightarrow> True | _ \<Rightarrow> False)"
| "py_isinstance v TyInt = Inr (case v of VInt _ \<Rightarrow> True | VBool _ \<Rightarrow> True | _ \<Rightarrow> False)"
| "py_isinstance v TyBool = Inr (case v of VBool _ \<Rightarrow> True | _ \<Rightarrow> False)"
| "py_isinstance v TyNoneType = Inr (v = VNone)"
| "py_isinstance v TyList = Inr (case v of VList _ \<Rightarrow> True | _ \<Rightarrow> False)"
| "py_isinstance v TyDict = Inr (case v of VDict _ \<Rightarrow> True | _ \<Rightarrow> False)"
| "py_isinstance v (TyModel n ps) = Inr (case v of VObj m _ \<Rightarrow> m = n | _ \<Rightarrow> False)"
| "py_isinstance v TyAny = Inl (TypeError (MBuiltin ''typing.Any cannot be used with isinstance()''))"
| "py_isinstance v (Lit x) =
     Inl (TypeError (MBuiltin ''isinstance() arg 2 must be a type, a tuple of types, or a union''))"
| "py_isinstance v (Generic g args) =
     (if g = OUnion \<or> g = OUnionType then isinstance_any v args
      else Inl (TypeError (MBuiltin
        ''Subscripted generics cannot be used with class and instance checks'')))"
| "isinstance_any v [] = Inr False"
| "isinstance_any v (t # ts) =
     (case py_isinstance v t of
        Inl e \<Rightarrow> Inl e
      | Inr True \<Rightarrow> Inr True
      | Inr False \<Rightarrow> isinstance_any v ts)"


definition is_dict :: "pyval \<Rightarrow> bool" where
  "is_dict v = (case v of VDict _ \<Rightarrow> True | _ \<Rightarrow> False)"

subsection \<open>Strings and numbers\<close>

text \<open>\<^verbatim>\<open>str.lower\<close> on ASCII letters (a string is a list of bytes here).\<close>

definition lower_char :: "char \<Rightarrow> char" where
  "lower_char c =
     (let n = (of_char c :: nat) in if 65 \<le> n \<and> n \<le> 90 then char_of (n + 32) else c)"

definition lower :: "string \<Rightarrow> string" where
  "lower s = map lower_char s"

definition is_space :: "char \<Rightarrow> bool" where
  "is_space c = (let n = (of_char c :: nat) in n = 32 \<or> (9 \<le> n \<and> n \<le> 13))"

definition strip :: "string \<Rightarrow> string" where
  "strip s = rev (dropWhile is_space (rev (dropWhile is_space s)))"

definition is_digit :: "char \<Rightarrow> bool" where
  "is_digit c = (let n = (of_char c :: nat) in 48 \<le> n \<and> n \<le> 57)"

definition digit_val :: "char \<Rightarrow> int" where
  "digit_val c = int (of_char c) - 48"

fun no_double_underscore :: "string \<Rightarrow> bool" where
  "no_double_underscore (a # b # cs) =
     (\<not> (a = CHR ''_'' \<and> b = CHR ''_'') \<and> no_double_underscore (b # cs))"
| "no_double_underscore _ = True"

text \<open>
  The decimal digits of \<^verbatim>\<open>int(s)\<close> after the sign: digits with single underscores
  between them, at most 4300 digits (the interpreter's default limit).
\<close>

definition parse_digits :: "string \<Rightarrow> int option" where
  "parse_digits ds =
     (if ds \<noteq> [] \<and> is_digit (hd ds) \<and> is_digit (last ds)
         \<and> list_all (\<lambda>c. is_digit c \<or> c = CHR ''_'') ds
         \<and> no_double_underscore ds
         \<and> length (filter is_digit ds) \<le> 4300
      then Some (foldl (\<lambda>acc c. 10 * acc + digit_val c) 0 (filter is_digit ds))
      else None)"

definition int_of_str :: "string \<Rightarrow> int option" where
  "int_of_str s =
     (case strip s of
        [] \<Rightarrow> None
      | c # cs \<Rightarrow>
          if c = CHR ''-'' then map_option uminus (parse_digits cs)
          else if c = CHR ''+'' then parse_digits cs
          else parse_digits (c # cs))"

function digits_of :: "nat \<Rightarrow> string" where
  "digits_of n =
     (if n < 10 then [char_of (48 + n)] else digits_of (n div 10) @ [char_of (48 + n mod 10)])"
  by pat_completeness auto
termination
  by (relation "measure id") auto

definition str_of_int :: "int \<Rightarrow> string" where
  "str_of_int i = (if i < 0 then CHR ''-'' # digits_of (nat (- i)) else digits_of (nat i))"

definition hex_digit :: "nat \<Rightarrow> char" where
  "hex_digit n = (if n < 10 then char_of (48 + n) else char_of (87 + n))"

text \<open>\<^verbatim>\<open>repr\<close> of a string: quoted, with the escapes of the interpreter.\<close>

definition escape_char :: "char \<Rightarrow> char \<Rightarrow> string" where
  "escape_char q c =
     (let n = (of_char c :: nat) in
      if c = q \<or> n = 92 then [char_of (92::nat), c]
      else if n = 10 then [char_of (92::nat), CHR ''n'']
      else if n = 13 then [char_of (92::nat), CHR ''r'']
      else if n = 9 then [char_of (92::nat), CHR ''t'']
      else if n < 32 \<or> 127 \<le> n
        then [char_of (92::nat), CHR ''x'', hex_digit (n div 16), hex_digit (n mod 16)]
      else [c])"

definition repr_str :: "string \<Rightarrow> string" where
  "repr_str s =
     (let q = (if char_of (39::nat) \<in> set s \<and> char_of (34::nat) \<notin> set s then char_of (34::nat) else char_of (39::nat))
      in q # concat (map (escape_char q) s) @ [q])"

definition join :: "string \<Rightarrow> string list \<Rightarrow> string" where
  "join sep xs = (case xs of [] \<Rightarrow> [] | y # ys \<Rightarrow> y @ concat (map (\<lambda>z. sep @ z) ys))"

fun py_repr :: "pyval \<Rightarrow> string" where
  "py_repr VNone = ''None''"
| "py_repr (VBool b) = (if b then ''True'' else ''False'')"
| "py_repr (VInt i) = str_of_int i"
| "py_repr (VStr s) = repr_str s"
| "py_repr (VList xs) = ''['' @ join '', '' (map py_repr xs) @ '']''"
| "py_repr (VDict d) =
     ''{'' @ join '', '' (map (\<lambda>kv. py_repr (fst kv) @ '': '' @ py_repr (snd kv)) d) @ ''}''"
| "py_repr HAS_DEFAULT_FACTORY = ''<factory>''"
| "py_repr NOTHING = ''NOTHING''"
| "py_repr (VObj n fs) =
     n @ ''('' @ join '', '' (map (\<lambda>f. fst f @ ''='' @ py_repr (snd f)) fs) @ '')''"

text \<open>\<^verbatim>\<open>str(value)\<close>: a string is itself, everything else its \<^verbatim>\<open>repr\<close>.\<close>

definition py_str :: "pyval \<Rightarrow> string" where
  "py_str v = (case v of VStr s \<Rightarrow> s | _ \<Rightarrow> py_repr v)"

subsection \<open>Coercers\<close>

text \<open>
  \<^verbatim>\<open>str_to_none\<close> (check.py, lines 169-172). A value that is neither \<^verbatim>\<open>None\<close> nor a
  string has no method \<^verbatim>\<open>lower\<close>: the call raises \<^verbatim>\<open>AttributeError\<close>.
\<close>

definition str_to_none :: "pyval \<Rightarrow> pyval result" where
  "str_to_none v =
     (case v of
        VNone \<Rightarrow> Inr VNone
      | VStr s \<Rightarrow>
          if lower s \<in> set [''null'', ''none'', []] then Inr VNone
          else Inl (ValueError (MNoConvertNone v))
      | _ \<Rightarrow> Inl (AttributeError ''lower''))"

text \<open>
  \<^verbatim>\<open>sanic.utils.str_to_bool\<close>, the coercer that \<^verbatim>\<open>Hint.get_coercer\<close> substitutes for
  \<^verbatim>\<open>bool\<close>. It belongs to the framework, not to this repository; its token sets are
  those of the framework's definition.
\<close>

definition str_to_bool :: "pyval \<Rightarrow> pyval result" where
  "str_to_bool v =
     (case v of
        VStr s \<Rightarrow>
          let val = lower s in
          if val \<in> set [''y'', ''yes'', ''yep'', ''yup'', ''t'', ''true'', ''on'',
                          ''enable'', ''enabled'', ''1''] then Inr (VBool True)
          else if val \<in> set [''n'', ''no'', ''f'', ''false'', ''off'', ''disable'',
                               ''disabled'', ''0''] then Inr (VBool False)
          else Inl (ValueError (MInvalidTruth val))
      | _ \<Rightarrow> Inl (AttributeError ''lower''))"

definition py_int :: "pyval \<Rightarrow> pyval result" where
  "py_int v =
     (case v of
        VInt i \<Rightarrow> Inr (VInt i)
      | VBool b \<Rightarrow> Inr (VInt (if b then 1 else 0))
      | VStr s \<Rightarrow>
          (case int_of_str s of
             Some i \<Rightarrow> Inr (VInt i)
           | None \<Rightarrow> Inl (ValueError (MBuiltin ''invalid literal for int() with base 10'')))
      | _ \<Rightarrow> Inl (TypeError (MBuiltin
          ''int() argument must be a string, a bytes-like object or a real number'')))"

definition truthy :: "pyval \<Rightarrow> bool" where
  "truthy v =
     (case v of
        VNone \<Rightarrow> False
      | VBool b \<Rightarrow> b
      | VInt i \<Rightarrow> i \<noteq> 0
      | VStr s \<Rightarrow> s \<noteq> []
      | VList xs \<Rightarrow> xs \<noteq> []
      | VDict d \<Rightarrow> d \<noteq> []
      | _ \<Rightarrow> True)"

definition iterate :: "pyval \<Rightarrow> pyval list option" where
  "iterate v =
     (case v of
        VStr s \<Rightarrow> Some (map (\<lambda>c. VStr [c]) s)
      | VList xs \<Rightarrow> Some xs
      | VDict d \<Rightarrow> Some (map fst d)
      | _ \<Rightarrow> None)"

definition py_list :: "pyval \<Rightarrow> pyval result" where
  "py_list v =
     (case iterate v of
        Some xs \<Rightarrow> Inr (VList xs)
      | None \<Rightarrow> Inl (TypeError (MBuiltin ''object is not iterable'')))"

definition hashable :: "pyval \<Rightarrow> bool" where
  "hashable v = (case v of VList _ \<Rightarrow> False | VDict _ \<Rightarrow> False | VObj _ _ \<Rightarrow> False | _ \<Rightarrow> True)"

fun dict_set :: "(pyval \<times> pyval) list \<Rightarrow> pyval \<Rightarrow> pyval \<Rightarrow> (pyval \<times> pyval) list" where
  "dict_set [] k v = [(k, v)]"
| "dict_set ((k', v') # d) k v =
     (if py_eq k' k then (k', v) # d else (k', v') # dict_set d k v)"

fun dict_of_pairs :: "pyval list \<Rightarrow> (pyval \<times> pyval) list \<Rightarrow> pyval result" where
  "dict_of_pairs [] d = Inr (VDict d)"
| "dict_of_pairs (item # items) d =
     (case iterate item of
        None \<Rightarrow> Inl (TypeError (MBuiltin
          ''cannot convert dictionary update sequence element to a sequence''))
      | Some [k, v] \<Rightarrow>
          if hashable k then dict_of_pairs items (dict_set d k v)
          else Inl (TypeError (MBuiltin ''unhashable type''))
      | Some _ \<Rightarrow> Inl (ValueError (MBuiltin
          ''dictionary update sequence element has the wrong length; 2 is required'')))"

definition py_dict :: "pyval \<Rightarrow> pyval result" where
  "py_dict v =
     (case v of
        VDict d \<Rightarrow> Inr (VDict d)
      | _ \<Rightarrow>
          (case iterate v of
             None \<Rightarrow> Inl (TypeError (MBuiltin ''object is not iterable''))
           | Some items \<Rightarrow> dict_of_pairs items []))"

subsection \<open>Calling a class\<close>

text \<open>
  A model class is a dataclass: its generated constructor takes the fields as
  positional-or-keyword parameters, rejects an unknown or repeated argument and a missing
  required one with \<^verbatim>\<open>TypeError\<close>, and replaces the default-factory marker by the
  factory's value.
\<close>

definition init_field :: "(string \<times> pyval) list \<Rightarrow> string \<times> pdefault \<Rightarrow> (string \<times> pyval) result" where
  "init_field supplied p =
     (case (map_of supplied (fst p), snd p) of
        (Some v, Factory f) \<Rightarrow> Inr (fst p, if v = HAS_DEFAULT_FACTORY then f else v)
      | (Some v, _) \<Rightarrow> Inr (fst p, v)
      | (None, Required) \<Rightarrow> Inl (TypeError (MBuiltin ''missing required argument''))
      | (None, Default x) \<Rightarrow> Inr (fst p, x)
      | (None, Factory f) \<Rightarrow> Inr (fst p, f))"

fun map_result :: "('a \<Rightarrow> 'b result) \<Rightarrow> 'a list \<Rightarrow> 'b list result" where
  "map_result f [] = Inr []"
| "map_result f (x # xs) =
     (case f x of
        Inl e \<Rightarrow> Inl e
      | Inr y \<Rightarrow> (case map_result f xs of Inl e \<Rightarrow> Inl e | Inr ys \<Rightarrow> Inr (y # ys)))"

definition call_model ::
  "string \<Rightarrow> (string \<times> pdefault) list \<Rightarrow> pyval list \<Rightarrow> (string \<times> pyval) list \<Rightarrow> pyval result" where
  "call_model n ps args kwargs =
     (if length ps < length args
        then Inl (TypeError (MBuiltin ''too many positional arguments''))
      else if \<exists>k \<in> set (map fst kwargs). k \<notin> set (map fst ps)
        then Inl (TypeError (MBuiltin ''got an unexpected keyword argument''))
      else if \<exists>k \<in> set (map fst kwargs). k \<in> set (take (length args) (map fst ps))
        then Inl (TypeError (MBuiltin ''got multiple values for argument''))
      else
        (case map_result (init_field (zip (map fst ps) args @ kwargs)) ps of
           Inl e \<Rightarrow> Inl e
         | Inr fs \<Rightarrow> Inr (VObj n fs)))"

text \<open>\<^verbatim>\<open>t(value)\<close>: the class \<open>t\<close> called with one positional argument.\<close>

definition call_type :: "pyhint \<Rightarrow> pyval \<Rightarrow> pyval result" where
  "call_type t v =
     (case t of
        TyStr \<Rightarrow> Inr (VStr (py_str v))
      | TyInt \<Rightarrow> py_int v
      | TyBool \<Rightarrow> Inr (VBool (truthy v))
      | TyNoneType \<Rightarrow> Inl (TypeError (MBuiltin ''NoneType takes no arguments''))
      | TyList \<Rightarrow> py_list v
      | TyDict \<Rightarrow> py_dict v
      | TyAny \<Rightarrow> Inl (TypeError (MBuiltin ''Any cannot be instantiated''))
      | TyModel n ps \<Rightarrow> call_model n ps [v] []
      | Lit x \<Rightarrow> Inl (TypeError (MBuiltin ''object is not callable''))
      | Generic g args \<Rightarrow>
          if g = OList then py_list v
          else if g = ODict then py_dict v
          else Inl (TypeError (MBuiltin ''Cannot instantiate'')))"

text \<open>
  \<^verbatim>\<open>model(**kwargs)\<close>, the last line of \<^verbatim>\<open>check_data\<close>. For a builtin class only the
  call without arguments and \<^verbatim>\<open>dict(**kwargs)\<close> succeed.
\<close>

definition construct :: "pyhint \<Rightarrow> (string \<times> pyval) list \<Rightarrow> pyval result" where
  "construct t kwargs =
     (case t of
        TyModel n ps \<Rightarrow> call_model n ps [] kwargs
      | TyDict \<Rightarrow> Inr (VDict (map (\<lambda>kv. (VStr (fst kv), snd kv)) kwargs))
      | Generic ODict args \<Rightarrow> Inr (VDict (map (\<lambda>kv. (VStr (fst kv), snd kv)) kwargs))
      | TyStr \<Rightarrow>
          (case kwargs of
             [] \<Rightarrow> Inr (VStr [])
           | [(k, v)] \<Rightarrow> if k = ''object'' then Inr (VStr (py_str v))
                          else Inl (TypeError (MBuiltin ''invalid keyword argument''))
           | _ \<Rightarrow> Inl (TypeError (MBuiltin ''invalid keyword argument'')))
      | _ \<Rightarrow>
          if kwargs \<noteq> [] then Inl (TypeError (MBuiltin ''invalid keyword argument''))
          else (case t of
                  TyInt \<Rightarrow> Inr (VInt 0)
                | TyBool \<Rightarrow> Inr (VBool False)
                | TyNoneType \<Rightarrow> Inr VNone
                | TyList \<Rightarrow> Inr (VList [])
                | Generic OList args \<Rightarrow> Inr (VList [])
                | Lit x \<Rightarrow> Inl (TypeError (MBuiltin ''object is not callable''))
                | _ \<Rightarrow> Inl (TypeError (MBuiltin ''Cannot instantiate''))))"

text \<open>\<^verbatim>\<open>model.__name__\<close>; a literal value and a \<^verbatim>\<open>X | Y\<close> union have no such attribute.\<close>

definition class_name :: "pyhint \<Rightarrow> string result" where
  "class_name t =
     (case t of
        TyStr \<Rightarrow> Inr ''str'' | TyInt \<Rightarrow> Inr ''int'' | TyBool \<Rightarrow> Inr ''bool''
      | TyNoneType \<Rightarrow> Inr ''NoneType'' | TyList \<Rightarrow> Inr ''list'' | TyDict \<Rightarrow> Inr ''dict''
      | TyAny \<Rightarrow> Inr ''Any''
      | TyModel n ps \<Rightarrow> Inr n
      | Lit x \<Rightarrow> Inl (AttributeError ''__name__'')
      | Generic g args \<Rightarrow>
          (case g of
             OUnion \<Rightarrow> Inr (if length args = 2 \<and> TyNoneType \<in> set args then ''Optional'' else ''Union'')
           | OUnionType \<Rightarrow> Inl (AttributeError ''__name__'')
           | OLiteral \<Rightarrow> Inr ''Literal''
           | OList \<Rightarrow> Inr ''List''
           | ODict \<Rightarrow> Inr ''Dict''))"

section \<open>The validation engine (check.py)\<close>

subsection \<open>Typing helpers\<close>

text \<open>
  Modelled from the spec: \<^verbatim>\<open>is_generic\<close> and \<^verbatim>\<open>is_optional\<close> of
  \<^verbatim>\<open>sanic_ext/utils/typing.py\<close>, which is not among the sources. A generic is a
  subscripted type (a compound with an origin); the optional idiom is "a union with a
  null alternative", that is a generic with two arguments one of which is \<^verbatim>\<open>NoneType\<close>.
\<close>

definition is_generic :: "pyhint \<Rightarrow> bool" where
  "is_generic t = (case t of Generic g args \<Rightarrow> True | _ \<Rightarrow> False)"

definition get_args :: "pyhint \<Rightarrow> pyhint list" where
  "get_args t = (case t of Generic g args \<Rightarrow> args | _ \<Rightarrow> [])"

definition is_optional :: "pyhint \<Rightarrow> bool" where
  "is_optional t = (is_generic t \<and> length (get_args t) = 2 \<and> TyNoneType \<in> set (get_args t))"

text \<open>The tuple \<^verbatim>\<open>MISSING\<close> (lines 10-29), with attrs installed.\<close>

definition MISSING :: "pyval list" where
  "MISSING = [HAS_DEFAULT_FACTORY, NOTHING]"

subsection \<open>Coercion\<close>

datatype coercer = StrToNone | StrToBool | Class pyhint

definition apply_coercer :: "coercer \<Rightarrow> pyval \<Rightarrow> pyval result" where
  "apply_coercer c v =
     (case c of StrToNone \<Rightarrow> str_to_none v | StrToBool \<Rightarrow> str_to_bool v | Class t \<Rightarrow> call_type t v)"

definition coerce_type :: "Hint \<Rightarrow> pyhint" where
  "coerce_type h = (if is_optional (hint h) then hd (get_args (hint h)) else hint h)"

definition get_coercer :: "pyhint \<Rightarrow> coercer" where
  "get_coercer t = (if t = TyBool then StrToBool else Class t)"

definition caught :: "exc \<Rightarrow> bool" where
  \<comment> \<open>\<^verbatim>\<open>except (ValueError, TypeError)\<close>\<close>
  "caught e = (case e of ValueError m \<Rightarrow> True | TypeError m \<Rightarrow> True | _ \<Rightarrow> False)"

definition do_coerce :: "pyval \<Rightarrow> coercer \<Rightarrow> bool \<Rightarrow> pyval result" where
  "do_coerce v c raise_exception =
     (case (case v of
              VList xs \<Rightarrow> (case map_result (apply_coercer c) xs of
                              Inl e \<Rightarrow> Inl e | Inr ys \<Rightarrow> Inr (VList ys))
            | _ \<Rightarrow> apply_coercer c v) of
        Inr v' \<Rightarrow> Inr v'
      | Inl e \<Rightarrow> if caught e \<and> \<not> raise_exception then Inr v else Inl e)"

text \<open>The list comprehension \<^verbatim>\<open>[arg for arg in args if not isinstance(None, arg)]\<close>.\<close>

fun non_none_args :: "pyhint list \<Rightarrow> pyhint list result" where
  "non_none_args [] = Inr []"
| "non_none_args (a # as) =
     (case py_isinstance VNone a of
        Inl e \<Rightarrow> Inl e
      | Inr b \<Rightarrow>
          (case non_none_args as of
             Inl e \<Rightarrow> Inl e
           | Inr rest \<Rightarrow> Inr (if b then rest else a # rest)))"

text \<open>The loop over \<^verbatim>\<open>coerce_types\<close> (lines 130-141).\<close>

fun coerce_loop :: "pyval \<Rightarrow> pyhint list \<Rightarrow> pyval result" where
  "coerce_loop v [] = Inr v"
| "coerce_loop v (t # ts) =
     (case py_isinstance v t of
        Inl e \<Rightarrow> Inl e
      | Inr True \<Rightarrow> Inr v
      | Inr False \<Rightarrow>
          (case do_coerce v (get_coercer t) True of
             Inr v' \<Rightarrow> Inr v'
           | Inl e \<Rightarrow> if caught e then coerce_loop v ts else Inl e))"

definition all_none :: "pyval \<Rightarrow> bool" where
  "all_none v = (case v of VList xs \<Rightarrow> list_all (\<lambda>x. x = VNone) xs | _ \<Rightarrow> False)"

definition coerce_nullable :: "Hint \<Rightarrow> pyval \<Rightarrow> bool \<Rightarrow> pyhint list \<Rightarrow> pyval result" where
  "coerce_nullable h v allow_multiple coerce_types =
     (if nullable h then
        (case do_coerce v StrToNone False of
           Inl e \<Rightarrow> Inl e
         | Inr v' \<Rightarrow>
             if v' = VNone \<or> (allow_multiple \<and> all_none v') then Inr v'
             else coerce_loop v' coerce_types)
      else coerce_loop v coerce_types)"

definition coerce :: "Hint \<Rightarrow> pyval \<Rightarrow> bool \<Rightarrow> pyval result" where
  "coerce h v allow_multiple =
     (if is_generic (coerce_type h) then
        (if TyNoneType \<in> set (get_args (coerce_type h)) \<and> v = VNone then Inr VNone
         else (case non_none_args (get_args (coerce_type h)) of
                 Inl e \<Rightarrow> Inl e
               | Inr coerce_types \<Rightarrow> coerce_nullable h v allow_multiple coerce_types))
      else coerce_nullable h v allow_multiple [coerce_type h])"

subsection \<open>Type check of a plain value\<close>

definition check_types :: "pyval \<Rightarrow> bool \<Rightarrow> pyhint \<Rightarrow> unit result" where
  "check_types v lit expected =
     (if lit then
        (if expected = TyAny then Inr ()
         else if \<not> (case expected of Lit x \<Rightarrow> py_eq v x | _ \<Rightarrow> False)
           then Inl (ValueError (MMustBe v expected))
         else Inr ())
      else
        (case py_isinstance v expected of
           Inl e \<Rightarrow> Inl e
         | Inr b \<Rightarrow> if b then Inr () else Inl (ValueError (MNotOfType v expected))))"

subsection \<open>Binding the input to the recorded signature\<close>

text \<open>
  \<^verbatim>\<open>sig.bind(**data)\<close> followed by \<^verbatim>\<open>apply_defaults()\<close> (lines 180-183): the keywords
  must be strings; every parameter takes the supplied value or its default; a parameter
  with neither, and then a keyword that names no parameter, raise \<^verbatim>\<open>TypeError\<close>.
\<close>

fun str_keywords :: "(pyval \<times> pyval) list \<Rightarrow> (string \<times> pyval) list option" where
  "str_keywords [] = Some []"
| "str_keywords ((VStr k, v) # d) = map_option (\<lambda>r. (k, v) # r) (str_keywords d)"
| "str_keywords (_ # d) = None"

fun bind_params :: "(string \<times> pyval option) list \<Rightarrow> (string \<times> pyval) list \<Rightarrow> (string \<times> pyval) list result" where
  "bind_params [] kw = Inr []"
| "bind_params ((p, dflt) # ps) kw =
     (case (case map_of kw p of Some v \<Rightarrow> Some v | None \<Rightarrow> dflt) of
        None \<Rightarrow> Inl (TypeError (MBuiltin ''missing a required argument''))
      | Some v \<Rightarrow> (case bind_params ps kw of Inl e \<Rightarrow> Inl e | Inr r \<Rightarrow> Inr ((p, v) # r)))"

definition sig_bind :: "(string \<times> pyval option) list \<Rightarrow> (pyval \<times> pyval) list \<Rightarrow> (string \<times> pyval) list result" where
  "sig_bind sg d =
     (case str_keywords d of
        None \<Rightarrow> Inl (TypeError (MBuiltin ''keywords must be strings''))
      | Some kw \<Rightarrow>
          (case bind_params sg kw of
             Inl e \<Rightarrow> Inl e
           | Inr params \<Rightarrow>
               if \<exists>k \<in> set (map fst kw). k \<notin> set (map fst sg)
               then Inl (TypeError (MBuiltin ''got an unexpected keyword argument''))
               else Inr params))"

text \<open>Lines 176-183 of \<^verbatim>\<open>check_data\<close>: everything before the loop over the parameters.\<close>

definition bind_data :: "pyhint \<Rightarrow> pyval \<Rightarrow> schema \<Rightarrow> ((string \<times> pyval) list \<times> (string \<times> Hint) list) result" where
  "bind_data mdl data sc =
     (case data of
        VDict d \<Rightarrow>
          (case class_name mdl of
             Inl e \<Rightarrow> Inl e
           | Inr name \<Rightarrow>
               (case map_of sc name of
                  None \<Rightarrow> Inl (KeyError name)
                | Some entry \<Rightarrow>
                    (case sig_bind (sig entry) d of
                       Inl e \<Rightarrow> Inl e
                     | Inr params \<Rightarrow> Inr (params, hints entry))))
      | _ \<Rightarrow> Inl (TypeError (MNotDict data)))"

subsection \<open>Hint.validate and the recursive checks\<close>

text \<open>The untyped, plain branch of \<^verbatim>\<open>Hint.validate\<close> (lines 55-69); it does not recurse.\<close>

definition validate_plain :: "Hint \<Rightarrow> pyval \<Rightarrow> bool \<Rightarrow> bool \<Rightarrow> pyval result" where
  "validate_plain h v0 allow_multiple allow_coerce =
     (let v = (case v0 of
                 VList [x] \<Rightarrow> if allow_multiple \<and> coerce_type h \<noteq> TyList then x else v0
               | _ \<Rightarrow> v0)
      in case check_types v (literal h) (hint h) of
           Inr u \<Rightarrow> Inr v
         | Inl (ValueError m) \<Rightarrow>
             if allow_coerce then
               (case coerce h v False of
                  Inl e \<Rightarrow> Inl e
                | Inr v' \<Rightarrow>
                    (case check_types v' (literal h) (hint h) of
                       Inl e \<Rightarrow> Inl e
                     | Inr u \<Rightarrow> Inr v'))
             else Inl (ValueError m)
         | Inl e \<Rightarrow> Inl e)"

definition any_not_none :: "pyval \<Rightarrow> bool" where
  "any_not_none v = (case v of VList xs \<Rightarrow> list_ex (\<lambda>x. x \<noteq> VNone) xs | _ \<Rightarrow> False)"

definition to_type_error :: "exc \<Rightarrow> exc" where
  \<comment> \<open>\<^verbatim>\<open>except ValueError as e: raise TypeError(e)\<close>\<close>
  "to_type_error e = (case e of ValueError m \<Rightarrow> TypeError m | _ \<Rightarrow> e)"

text \<open>
  The recursion of the engine. The first argument bounds the nesting of models (the
  interpreter's recursion limit): the loop over the parameters of a model spends one
  unit, and a model inside a model inside ... that exhausts it raises
  \<^verbatim>\<open>RecursionError\<close>. \<open>nullable_loop\<close> and \<open>inclusion_loop\<close> are the \<^verbatim>\<open>for\<close> loops of
  \<^verbatim>\<open>_check_nullability\<close> and \<^verbatim>\<open>_check_inclusion\<close>, \<open>list_items\<close> and \<open>dict_items\<close> the
  comprehensions of \<^verbatim>\<open>_check_list\<close> and \<^verbatim>\<open>_check_dict\<close>, \<open>check_fields\<close> the loop of
  \<^verbatim>\<open>check_data\<close>.
\<close>

function (sequential) validate :: "nat \<Rightarrow> Hint \<Rightarrow> pyval \<Rightarrow> schema \<Rightarrow> bool \<Rightarrow> bool \<Rightarrow> pyval result"
  and check_data :: "nat \<Rightarrow> pyhint \<Rightarrow> pyval \<Rightarrow> schema \<Rightarrow> bool \<Rightarrow> bool \<Rightarrow> pyval result"
  and check_fields :: "nat \<Rightarrow> (string \<times> pyval) list \<Rightarrow> (string \<times> Hint) list \<Rightarrow> schema \<Rightarrow> bool \<Rightarrow> bool
      \<Rightarrow> (string \<times> pyval) list \<Rightarrow> (string \<times> pyval) list result"
  and check_nullability :: "nat \<Rightarrow> pyval \<Rightarrow> bool \<Rightarrow> Hint list \<Rightarrow> schema \<Rightarrow> bool \<Rightarrow> bool \<Rightarrow> pyval result"
  and nullable_loop :: "nat \<Rightarrow> pyval \<Rightarrow> Hint list \<Rightarrow> exc option \<Rightarrow> Hint list \<Rightarrow> schema \<Rightarrow> bool \<Rightarrow> bool
      \<Rightarrow> pyval result"
  and check_inclusion :: "nat \<Rightarrow> pyval \<Rightarrow> Hint list \<Rightarrow> schema \<Rightarrow> bool \<Rightarrow> bool \<Rightarrow> pyval result"
  and inclusion_loop :: "nat \<Rightarrow> pyval \<Rightarrow> Hint list \<Rightarrow> Hint list \<Rightarrow> schema \<Rightarrow> bool \<Rightarrow> bool \<Rightarrow> pyval result"
  and check_list :: "nat \<Rightarrow> pyval \<Rightarrow> Hint list \<Rightarrow> pyhint \<Rightarrow> schema \<Rightarrow> bool \<Rightarrow> bool \<Rightarrow> pyval result"
  and list_items :: "nat \<Rightarrow> pyval list \<Rightarrow> Hint list \<Rightarrow> schema \<Rightarrow> bool \<Rightarrow> bool \<Rightarrow> pyval list result"
  and check_dict :: "nat \<Rightarrow> pyval \<Rightarrow> Hint list \<Rightarrow> pyhint \<Rightarrow> schema \<Rightarrow> bool \<Rightarrow> bool \<Rightarrow> pyval result"
  and dict_items :: "nat \<Rightarrow> (pyval \<times> pyval) list \<Rightarrow> Hint list \<Rightarrow> schema \<Rightarrow> bool \<Rightarrow> bool
      \<Rightarrow> (pyval \<times> pyval) list result"
where
  "validate n h v sc am ac =
     (if \<not> typed h then
        (if model h then check_data n (hint h) v sc am ac
         else validate_plain h v am ac)
      else
        (case (if ac then coerce h v am else Inr v) of
           Inl e \<Rightarrow> Inl e
         | Inr v1 \<Rightarrow>
             (case check_nullability n v1 (nullable h) (allowed h) sc am ac of
                Inl e \<Rightarrow> Inl e
              | Inr v2 \<Rightarrow>
                  if \<not> nullable h then
                    (if origin h \<in> {Some OUnion, Some OLiteral, Some OUnionType}
                       then check_inclusion n v2 (allowed h) sc am ac
                     else if origin h = Some OList
                       then check_list n v2 (allowed h) (hint h) sc am ac
                     else if origin h = Some ODict
                       then check_dict n v2 (allowed h) (hint h) sc am ac
                     else Inr v2)
                  else Inr v2)))"
| "check_data n mdl data sc am ac =
     (case bind_data mdl data sc of
        Inl e \<Rightarrow> Inl e
      | Inr (params, hs) \<Rightarrow>
          (case check_fields n params hs sc am ac [] of
             Inl e \<Rightarrow> Inl (to_type_error e)
           | Inr hydration_values \<Rightarrow> construct mdl hydration_values))"
| "check_fields n [] hs sc am ac acc = Inr acc"
| "check_fields 0 ((key, v) # params) hs sc am ac acc = Inl RecursionError"
| "check_fields (Suc n) ((key, v) # params) hs sc am ac acc =
     (case map_of hs key of
        None \<Rightarrow> Inl (AttributeError ''validate'')
      | Some h \<Rightarrow>
          (case validate n h v sc am ac of
             Inr r \<Rightarrow> check_fields (Suc n) params hs sc am ac (acc @ [(key, r)])
           | Inl (ValueError m) \<Rightarrow>
               if \<not> allow_missing h \<or> v \<notin> set MISSING then Inl (ValueError m)
               else check_fields (Suc n) params hs sc am ac acc
           | Inl e \<Rightarrow> Inl e))"
| "check_nullability n v nullable' allowed' sc am ac =
     (if \<not> nullable' \<and> v = VNone then Inl (ValueError MCannotBeNone)
      else if nullable' \<and> v \<noteq> VNone \<and> (\<not> am \<or> any_not_none v)
        then nullable_loop n v allowed' None allowed' sc am ac
      else Inr v)"
| "nullable_loop n v [] ex allowed' sc am ac =
     (case ex of
        None \<Rightarrow> Inr v
      | Some e \<Rightarrow>
          if length allowed' = 1 then Inl e
          else Inl (ValueError (MOneOfOrNone v (map hint allowed'))))"
| "nullable_loop n v (h # hs) ex allowed' sc am ac =
     (case validate n h v sc am ac of
        Inr r \<Rightarrow> Inr r
      | Inl (ValueError m) \<Rightarrow> nullable_loop n v hs (Some (ValueError m)) allowed' sc am ac
      | Inl e \<Rightarrow> Inl e)"
| "check_inclusion n v allowed' sc am ac = inclusion_loop n v allowed' allowed' sc am ac"
| "inclusion_loop n v [] allowed' sc am ac = Inl (ValueError (MOneOf v (map hint allowed')))"
| "inclusion_loop n v (option # options) allowed' sc am ac =
     (case validate n option v sc am ac of
        Inr r \<Rightarrow> Inr r
      | Inl e \<Rightarrow> if caught e then inclusion_loop n v options allowed' sc am ac else Inl e)"
| "check_list n v allowed' hnt sc am ac =
     (case v of
        VList items \<Rightarrow>
          (case list_items n items allowed' sc am ac of
             Inr rs \<Rightarrow> Inr (VList rs)
           | Inl e \<Rightarrow> if caught e then Inl (ValueError (MMustBeA v hnt)) else Inl e)
      | _ \<Rightarrow> Inl (ValueError (MMustBeA v hnt)))"
| "list_items n [] allowed' sc am ac = Inr []"
| "list_items n (item # items) allowed' sc am ac =
     (case check_inclusion n item allowed' sc am ac of
        Inl e \<Rightarrow> Inl e
      | Inr r \<Rightarrow>
          (case list_items n items allowed' sc am ac of
             Inl e \<Rightarrow> Inl e
           | Inr rs \<Rightarrow> Inr (r # rs)))"
| "check_dict n v allowed' hnt sc am ac =
     (case v of
        VDict d \<Rightarrow>
          (case dict_items n d allowed' sc am ac of
             Inr rs \<Rightarrow> Inr (VDict rs)
           | Inl e \<Rightarrow> if caught e then Inl (ValueError (MMustBeA v hnt)) else Inl e)
      | _ \<Rightarrow> Inl (ValueError (MMustBeA v hnt)))"
| "dict_items n [] allowed' sc am ac = Inr []"
| "dict_items n ((key, item) # d) allowed' sc am ac =
     (case check_inclusion n item allowed' sc am ac of
        Inl e \<Rightarrow> Inl e
      | Inr r \<Rightarrow>
          (case dict_items n d allowed' sc am ac of
             Inl e \<Rightarrow> Inl e
           | Inr rs \<Rightarrow> Inr ((key, r) # rs)))"
  by pat_completeness auto

text \<open>
  Termination: lexicographically, the bound on the nesting of models, then the size of
  the hint (or of the list of alternatives) under consideration, then the number of
  items still to be checked.
\<close>

definition vlen :: "pyval \<Rightarrow> nat" where
  "vlen v = (case v of VList xs \<Rightarrow> length xs | VDict d \<Rightarrow> length d | _ \<Rightarrow> 0)"

definition engine_measure where
  "engine_measure x =
     (case x of
        Inl (Inl (Inl (n, h, r))) \<Rightarrow> (n, 2 * size h + 2, 0)
      | Inl (Inl (Inr (n, r))) \<Rightarrow> (n, 1, 0)
      | Inl (Inr (Inl (n, params, r))) \<Rightarrow> (n, 0, length params)
      | Inl (Inr (Inr (Inl (n, v, nb, al, r)))) \<Rightarrow> (n, 2 * size_list size al + 3, 1)
      | Inl (Inr (Inr (Inr (n, v, hs, r)))) \<Rightarrow> (n, 2 * size_list size hs + 3, 0)
      | Inr (Inl (Inl (n, v, al, r))) \<Rightarrow> (n, 2 * size_list size al + 3, 1)
      | Inr (Inl (Inr (Inl (n, v, hs, r)))) \<Rightarrow> (n, 2 * size_list size hs + 3, 0)
      | Inr (Inl (Inr (Inr (n, v, al, r)))) \<Rightarrow> (n, 2 * size_list size al + 3, 3 + vlen v)
      | Inr (Inr (Inl (n, items, al, r))) \<Rightarrow> (n, 2 * size_list size al + 3, 2 + length items)
      | Inr (Inr (Inr (Inl (n, v, al, r)))) \<Rightarrow> (n, 2 * size_list size al + 3, 3 + vlen v)
      | Inr (Inr (Inr (Inr (n, d, al, r)))) \<Rightarrow> (n, 2 * size_list size al + 3, 2 + length d))"

termination validate
proof -
  have sz: "Suc (2 * size_list size (allowed h)) < 2 * size h" for h
    by (cases h) simp
  show ?thesis
    by (relation "inv_image (less_than <*lex*> less_than <*lex*> less_than) engine_measure")
      (auto simp: engine_measure_def vlen_def sz)
qed

text \<open>The equations of the functions with a long right-hand side are unfolded on demand only.\<close>

declare validate.simps [simp del] check_data.simps [simp del] check_nullability.simps [simp del]
  check_inclusion.simps [simp del] check_list.simps [simp del] check_dict.simps [simp del]

subsection \<open>Vocabulary of the properties\<close>


text \<open>
  The absent-value sentinels: \<^verbatim>\<open>None\<close> itself and the strings that \<^verbatim>\<open>str_to_none\<close>
  accepts, \<^verbatim>\<open>"null"\<close> and \<^verbatim>\<open>"none"\<close> in any case and the empty string.
\<close>

definition absent_sentinel :: "pyval \<Rightarrow> bool" where
  "absent_sentinel v =
     (case v of VNone \<Rightarrow> True | VStr s \<Rightarrow> lower s \<in> set [''null'', ''none'', []] | _ \<Rightarrow> False)"

text \<open>
  A plain primitive field: a hint that is neither compound, nor a model, nor a literal,
  and whose type is one of the builtin scalar classes.
\<close>

definition plain_primitive :: "Hint \<Rightarrow> bool" where
  "plain_primitive h =
     (\<not> typed h \<and> \<not> model h \<and> \<not> literal h \<and> hint h \<in> set [TyStr, TyInt, TyBool])"






section \<open>The log consumer (logger.py)\<close>

text \<open>
  \<^verbatim>\<open>Logger.__call__\<close> (lines 57-69) runs in a process of its own; producers in other
  processes put records on the shared queue and a signal may arrive at any time. The
  interleaving is a sequence of events: a producer enqueues a record, the stop signal
  arrives, or the consumer performs one pass of its \<^verbatim>\<open>while self.run\<close> loop (the test and,
  if it holds, the body). A record is its logger name and its message.
\<close>

type_synonym log_record = "string \<times> string"

datatype event = Enqueue log_record | Signal | Iterate

datatype status = Running | Exited | Crashed

record logger =
  run :: bool
  queue :: "log_record list"
  handled :: "log_record list"
  status :: status

text \<open>
  \<^verbatim>\<open>self.loggers\<close>: the names of the framework's three loggers (\<^verbatim>\<open>sanic.log\<close>), and the
  capacity of the queue made by \<^verbatim>\<open>Logger.prepare\<close>.
\<close>

definition loggers :: "string list" where
  "loggers = [''sanic.root'', ''sanic.access'', ''sanic.error'']"

definition maxsize :: nat where
  "maxsize = 4096"

definition init_logger :: logger where
  "init_logger = \<lparr>run = True, queue = [], handled = [], status = Running\<rparr>"

text \<open>
  \<^verbatim>\<open>QueueHandler.enqueue\<close> is \<^verbatim>\<open>put_nowait\<close>: on a full queue the record is dropped by
  the producer. \<^verbatim>\<open>stop\<close> clears \<^verbatim>\<open>self.run\<close>. A pass of the loop leaves it when \<^verbatim>\<open>self.run\<close>
  is false; otherwise \<^verbatim>\<open>get_nowait\<close> either raises \<^verbatim>\<open>Empty\<close> (\<^verbatim>\<open>continue\<close>) or yields the
  oldest record, which its logger handles; a record of an unknown logger makes
  \<^verbatim>\<open>self.loggers.get\<close> return \<^verbatim>\<open>None\<close> and the call of \<^verbatim>\<open>handle\<close> raise.
\<close>

fun step :: "logger \<Rightarrow> event \<Rightarrow> logger" where
  "step s (Enqueue r) =
     (if length (queue s) < maxsize then s\<lparr>queue := queue s @ [r]\<rparr> else s)"
| "step s Signal = (if run s then s\<lparr>run := False\<rparr> else s)"
| "step s Iterate =
     (if status s \<noteq> Running then s
      else if \<not> run s then s\<lparr>status := Exited\<rparr>
      else (case queue s of
              [] \<Rightarrow> s
            | r # q \<Rightarrow>
                if fst r \<in> set loggers then s\<lparr>queue := q, handled := handled s @ [r]\<rparr>
                else s\<lparr>queue := q, status := Crashed\<rparr>))"

definition run_events :: "logger \<Rightarrow> event list \<Rightarrow> logger" where
  "run_events s es = foldl step s es"

section \<open>Properties of the validation engine\<close>

subsection \<open>Coercion\<close>

lemma coerce_plain_str:
  assumes "hint h \<in> {TyStr, TyInt, TyBool}" "\<not> nullable h"
  shows "coerce h (VStr s) am =
     (case do_coerce (VStr s) (get_coercer (hint h)) True of
        Inr v' \<Rightarrow> if hint h = TyStr then Inr (VStr s) else Inr v'
      | Inl e \<Rightarrow> Inr (VStr s))"
  using assms
  by (auto simp: coerce_def coerce_type_def is_optional_def is_generic_def coerce_nullable_def
      get_coercer_def do_coerce_def apply_coercer_def call_type_def py_int_def str_to_bool_def
      caught_def Let_def split: option.splits)

lemma validate_plain_unconverted:
  assumes "hint h \<in> {TyInt, TyBool}" "\<not> typed h" "\<not> model h" "\<not> literal h"
    and "coerce h (VStr s) False = Inr (VStr s)"
  shows "validate n h (VStr s) sc am True = Inl (ValueError (MNotOfType (VStr s) (hint h)))"
  using assms by (auto simp: validate.simps validate_plain_def check_types_def)

text \<open>
  C5, as stated, fails: coercing the string \<^verbatim>\<open>"abc"\<close>, which is no boolean token, toward
  \<^verbatim>\<open>bool\<close> does not raise; \<^verbatim>\<open>Hint.coerce\<close> swallows the coercer's \<^verbatim>\<open>ValueError\<close> and
  returns the string unconverted.
\<close>

theorem coerce_unrecognized_bool_token:
  "coerce (Hint TyBool False False False False None [] False) (VStr ''abc'') False
     = Inr (VStr ''abc'')"
  by code_simp

text \<open>
  C5 (amended): for a string and a plain target \<^verbatim>\<open>str\<close>, \<^verbatim>\<open>int\<close> or \<^verbatim>\<open>bool\<close> of a hint
  that is not nullable, \<^verbatim>\<open>Hint.coerce\<close> never raises. It returns either a value of the
  target type or the string unconverted; in the second case the failure is signalled
  by \<^verbatim>\<open>Hint.validate\<close> (with coercion allowed), whose type check after the coercion
  raises the \<^verbatim>\<open>ValueError\<close> "is not of type".
\<close>

theorem coerce_returns_unconverted_on_failure:
  assumes "hint h \<in> {TyStr, TyInt, TyBool}" and "\<not> nullable h"
  shows "\<exists>v'. coerce h (VStr s) am = Inr v' \<and>
           (py_isinstance v' (hint h) = Inr True \<or>
            (v' = VStr s \<and>
             (\<not> typed h \<and> \<not> model h \<and> \<not> literal h \<longrightarrow>
                validate n h (VStr s) sc am' True
                  = Inl (ValueError (MNotOfType (VStr s) (hint h))))))"
proof (cases "do_coerce (VStr s) (get_coercer (hint h)) True")
  case (Inr v')
  then have "py_isinstance v' (hint h) = Inr True \<or> hint h = TyStr"
    using assms(1)
    by (auto simp: do_coerce_def get_coercer_def apply_coercer_def call_type_def py_int_def
        str_to_bool_def Let_def split: option.splits if_splits)
  with Inr show ?thesis
    using assms by (auto simp: coerce_plain_str)
next
  case (Inl e)
  then have c: "coerce h (VStr s) b = Inr (VStr s)" for b
    using assms by (simp add: coerce_plain_str)
  show ?thesis
  proof (cases "hint h = TyStr")
    case True
    then show ?thesis using c by simp
  next
    case False
    then have "hint h \<in> {TyInt, TyBool}" using assms(1) by auto
    then show ?thesis
      using c validate_plain_unconverted[of h s n sc am'] by auto
  qed
qed

theorem coerce_returns_unconverted_on_failure_witness:
  "coerce (Hint TyInt False False False False None [] False) (VStr ''x1'') False = Inr (VStr ''x1'')
   \<and> validate 0 (Hint TyInt False False False False None [] False) (VStr ''x1'') [] False True
       = Inl (ValueError (MNotOfType (VStr ''x1'') TyInt))"
proof -
  let ?h = "Hint TyInt False False False False None [] False"
  have hyp: "hint ?h \<in> {TyStr, TyInt, TyBool}" "\<not> nullable ?h"
    by simp_all
  have ev: "coerce ?h (VStr ''x1'') False = Inr (VStr ''x1'')"
    by code_simp
  from coerce_returns_unconverted_on_failure [OF hyp, of "''x1''" False 0 "[]" False] ev
  show ?thesis by (simp add: validate.simps)
qed

subsection \<open>Union resolution\<close>




subsection \<open>Lists\<close>






subsection \<open>Nullable resolution\<close>




subsection \<open>The exemption for missing values\<close>



subsection \<open>Binding to the signature\<close>

lemma str_keywords_keys:
  "str_keywords d = Some kw \<Longrightarrow> map fst d = map (\<lambda>p. VStr (fst p)) kw"
proof (induction d arbitrary: kw rule: str_keywords.induct)
  case 1
  then show ?case by simp
next
  case (2 k v d)
  then show ?case by auto
qed simp_all

lemma bind_params_error:
  "bind_params sg kw = Inl e \<Longrightarrow> e = TypeError (MBuiltin ''missing a required argument'')"
  by (induction sg kw arbitrary: e rule: bind_params.induct)
    (auto split: option.splits sum.splits)

lemma bind_params_missing:
  "(p, None) \<in> set sg \<Longrightarrow> map_of kw p = None \<Longrightarrow> \<exists>e. bind_params sg kw = Inl e"
proof (induction sg)
  case Nil
  then show ?case by simp
next
  case (Cons qd sg)
  obtain q dflt where qd: "qd = (q, dflt)"
    by (cases qd)
  show ?case
  proof (cases "case map_of kw q of Some v \<Rightarrow> Some v | None \<Rightarrow> dflt")
    case None
    then show ?thesis using qd by simp
  next
    case (Some v)
    then have "(p, None) \<noteq> (q, dflt)"
      using Cons.prems(2) by auto
    then have "(p, None) \<in> set sg"
      using Cons.prems(1) qd by auto
    then obtain e where "bind_params sg kw = Inl e"
      using Cons.IH Cons.prems(2) by blast
    then show ?thesis using qd Some by simp
  qed
qed

lemma sig_bind_rejects:
  assumes "(\<exists>k \<in> set (map fst d). \<forall>p. k = VStr p \<longrightarrow> p \<notin> set (map fst sg))
         \<or> (\<exists>p. (p, None) \<in> set sg \<and> VStr p \<notin> set (map fst d))"
  shows "\<exists>s. sig_bind sg d = Inl (TypeError (MBuiltin s))"
proof (cases "str_keywords d")
  case None
  then show ?thesis by (simp add: sig_bind_def)
next
  case (Some kw)
  note keys = str_keywords_keys[OF Some]
  show ?thesis
  proof (cases "bind_params sg kw")
    case (Inl e)
    then show ?thesis
      using Some bind_params_error[OF Inl] by (simp add: sig_bind_def)
  next
    case (Inr params)
    have "\<not> (\<exists>p. (p, None) \<in> set sg \<and> VStr p \<notin> set (map fst d))"
    proof
      assume "\<exists>p. (p, None) \<in> set sg \<and> VStr p \<notin> set (map fst d)"
      then obtain p where p: "(p, None) \<in> set sg" "VStr p \<notin> set (map fst d)"
        by blast
      from p(2) keys have "p \<notin> fst ` set kw"
        by force
      then have "map_of kw p = None"
        by (simp add: map_of_eq_None_iff)
      from bind_params_missing[OF p(1) this] Inr show False
        by simp
    qed
    with assms obtain k where k: "k \<in> set (map fst d)" "\<forall>p. k = VStr p \<longrightarrow> p \<notin> set (map fst sg)"
      by blast
    from k(1) keys obtain q where "q \<in> set (map fst kw)" "k = VStr q"
      by auto
    with k(2) have "\<exists>k \<in> set (map fst kw). k \<notin> set (map fst sg)"
      by blast
    then show ?thesis
      using Some Inr by (simp add: sig_bind_def)
  qed
qed

text \<open>
  C9: binding is strict. For a model recorded in the schema and an input dict that has
  a key naming no parameter of the recorded signature, or that lacks a parameter without
  default, \<^verbatim>\<open>check_data\<close> raises the \<^verbatim>\<open>TypeError\<close> of the signature binding. This holds
  whatever the hints are and even with no budget for validating a field: the error is
  raised before any field is validated, and no instance is returned.
\<close>

theorem check_data_strict_binding:
  assumes "class_name mdl = Inr name" and "map_of sc name = Some entry"
    and "(\<exists>k \<in> set (map fst d). \<forall>p. k = VStr p \<longrightarrow> p \<notin> set (map fst (sig entry)))
         \<or> (\<exists>p. (p, None) \<in> set (sig entry) \<and> VStr p \<notin> set (map fst d))"
  shows "\<exists>s. sig_bind (sig entry) d = Inl (TypeError (MBuiltin s))
           \<and> check_data n mdl (VDict d) sc am ac = Inl (TypeError (MBuiltin s))"
proof -
  from sig_bind_rejects[OF assms(3)] obtain s
    where "sig_bind (sig entry) d = Inl (TypeError (MBuiltin s))"
    by blast
  then show ?thesis
    using assms(1,2) by (simp add: check_data.simps bind_data_def)
qed

theorem check_data_strict_binding_witness:
  "check_data 0 (TyModel ''Person'' [(''name'', Required)])
      (VDict [(VStr ''name'', VStr ''george''), (VStr ''age'', VInt 3)])
      [(''Person'', \<lparr>sig = [(''name'', None)],
                     hints = [(''name'', Hint TyStr False False False False None [] False)]\<rparr>)]
      False False
     = Inl (TypeError (MBuiltin ''got an unexpected keyword argument''))"
proof -
  let ?m = "TyModel ''Person'' [(''name'', Required)]"
  let ?e = "\<lparr>sig = [(''name'', None)],
             hints = [(''name'', Hint TyStr False False False False None [] False)]\<rparr>"
  let ?d = "[(VStr ''name'', VStr ''george''), (VStr ''age'', VInt 3)]"
  have a: "class_name ?m = Inr ''Person''"
    by (simp add: class_name_def)
  have b: "map_of [(''Person'', ?e)] ''Person'' = Some ?e"
    by simp
  have c: "(\<exists>k \<in> set (map fst ?d). \<forall>p. k = VStr p \<longrightarrow> p \<notin> set (map fst (sig ?e)))
         \<or> (\<exists>p. (p, None) \<in> set (sig ?e) \<and> VStr p \<notin> set (map fst ?d))"
    by simp
  have s: "sig_bind (sig ?e) ?d = Inl (TypeError (MBuiltin ''got an unexpected keyword argument''))"
    by (simp add: sig_bind_def)
  from check_data_strict_binding [OF a b c, of 0 False False] s
  show ?thesis by simp
qed

subsection \<open>Nullability\<close>

lemma coerce_sentinel:
  assumes "nullable h" and "absent_sentinel v"
    and "non_none_args (get_args (coerce_type h)) = Inr ts"
  shows "coerce h v am = Inr VNone"
  using assms
  by (cases v)
    (auto simp: coerce_def coerce_nullable_def do_coerce_def apply_coercer_def str_to_none_def
      absent_sentinel_def get_args_def is_generic_def split: pyhint.splits)

text \<open>
  C4, as stated, fails in its second half: the hint of a field annotated \<^verbatim>\<open>Any\<close> is not
  nullable, and validating \<^verbatim>\<open>None\<close> against it succeeds.
\<close>

theorem validate_none_any_hint:
  "validate 0 (Hint TyAny False True False False None [] False) VNone [] False False = Inr VNone"
  by (simp add: validate.simps validate_plain_def check_types_def)

text \<open>
  C4 (amended): for every compound (typed) hint that is nullable and whose coerce type
  has only classes as arguments, validating an absent-value sentinel with coercion
  allowed yields \<^verbatim>\<open>None\<close>; for every compound hint that is not nullable, validating
  \<^verbatim>\<open>None\<close> fails with "Value cannot be None", in both multiple modes, when coercion is
  off or leaves \<^verbatim>\<open>None\<close> as it is.
\<close>

theorem validate_nullability:
  assumes "typed h"
  shows "(nullable h \<and> absent_sentinel v
            \<and> (\<exists>ts. non_none_args (get_args (coerce_type h)) = Inr ts) \<longrightarrow>
            validate n h v sc am True = Inr VNone)
       \<and> (\<not> nullable h \<and> (ac \<longrightarrow> coerce h VNone am = Inr VNone) \<longrightarrow>
            validate n h VNone sc am ac = Inl (ValueError MCannotBeNone))"
proof -
  have p1: "validate n h v sc am True = Inr VNone"
    if "nullable h" "absent_sentinel v" "non_none_args (get_args (coerce_type h)) = Inr ts" for ts
    using that assms coerce_sentinel[OF that, of am]
    by (simp add: validate.simps check_nullability.simps)
  have p2: "validate n h VNone sc am ac = Inl (ValueError MCannotBeNone)"
    if "\<not> nullable h" "ac \<longrightarrow> coerce h VNone am = Inr VNone"
    using that assms by (simp add: validate.simps check_nullability.simps)
  from p1 p2 show ?thesis by blast
qed

theorem validate_nullability_witness:
  "validate 0 (Hint (Generic OUnion [TyInt, TyNoneType]) False False True True (Some OUnion)
       [Hint TyInt False False False False None [] False] False) (VStr ''NULL'') [] False True
     = Inr VNone
   \<and> validate 0 (Hint (Generic OList [TyInt]) False False True False (Some OList)
       [Hint TyInt False False False False None [] False] False) VNone [] True False
     = Inl (ValueError MCannotBeNone)"
proof -
  let ?i = "Hint TyInt False False False False None [] False"
  let ?o = "Hint (Generic OUnion [TyInt, TyNoneType]) False False True True (Some OUnion) [?i] False"
  let ?l = "Hint (Generic OList [TyInt]) False False True False (Some OList) [?i] False"
  have s: "absent_sentinel (VStr ''NULL'')"
    by code_simp
  have a: "\<exists>ts. non_none_args (get_args (coerce_type ?o)) = Inr ts"
    by (simp add: coerce_type_def is_optional_def is_generic_def get_args_def)
  have t: "typed ?o" "typed ?l" "nullable ?o" "\<not> nullable ?l"
    by simp_all
  from validate_nullability [OF t(1), of "VStr ''NULL''" 0 "[]" False False]
    validate_nullability [OF t(2), of "VStr ''NULL''" 0 "[]" True False] s a t
  show ?thesis by simp
qed

subsection \<open>Identity on valid input\<close>

lemma validate_plain_primitive:
  assumes "plain_primitive h" and "py_isinstance v (hint h) = Inr True"
  shows "validate n h v sc am ac = Inr v"
  using assms
  by (cases v)
    (auto simp: plain_primitive_def validate.simps validate_plain_def check_types_def)

lemma primitive_not_marker:
  "plain_primitive h \<Longrightarrow> py_isinstance v (hint h) = Inr True \<Longrightarrow> v \<noteq> HAS_DEFAULT_FACTORY"
  by (auto simp: plain_primitive_def)

lemma bind_params_supplied:
  "\<forall>p \<in> set (map fst sg). map_of kw p \<noteq> None \<Longrightarrow>
   bind_params sg kw = Inr (map (\<lambda>pd. (fst pd, the (map_of kw (fst pd)))) sg)"
  by (induction sg) (auto split: option.splits)

lemma map_result_all:
  "\<forall>x \<in> set xs. f x = Inr (g x) \<Longrightarrow> map_result f xs = Inr (map g xs)"
  by (induction xs) auto

lemma map_of_tabulated:
  "p \<in> set (map fst sg) \<Longrightarrow> map_of (map (\<lambda>pd. (fst pd, f (fst pd))) sg) p = Some (f p)"
  by (induction sg) auto

lemma check_fields_all_valid:
  assumes "\<forall>pv \<in> set params. \<exists>h. map_of hs (fst pv) = Some h \<and> plain_primitive h
             \<and> py_isinstance (snd pv) (hint h) = Inr True"
  shows "check_fields (Suc n) params hs sc am ac acc = Inr (acc @ params)"
  using assms
proof (induction params arbitrary: acc)
  case Nil
  then show ?case by simp
next
  case (Cons pv params)
  obtain p v where pv: "pv = (p, v)"
    by (cases pv)
  from Cons.prems pv obtain h where h: "map_of hs p = Some h" "plain_primitive h"
    "py_isinstance v (hint h) = Inr True"
    by auto
  have "check_fields (Suc n) params hs sc am ac (acc @ [(p, v)]) = Inr ((acc @ [(p, v)]) @ params)"
    using Cons.IH[of "acc @ [(p, v)]"] Cons.prems by simp
  then show ?case
    using pv h validate_plain_primitive[OF h(2,3), of n sc am ac] by simp
qed

text \<open>
  C1: identity on valid input. For a model recorded in the schema whose parameters all
  have plain primitive hints, and an input dict with string keys that supplies exactly
  the parameters, each with a value that is an instance of the declared type,
  \<^verbatim>\<open>check_data\<close> without multiple mode and without coercion returns an instance of the
  model whose fields are the parameters, each holding the input value unchanged.
\<close>

theorem check_data_identity:
  assumes "map_of sc name = Some entry"
    and "map fst (sig entry) = map fst ps"
    and "str_keywords d = Some kw"
    and "distinct (map fst kw)"
    and "set (map fst kw) = set (map fst ps)"
    and "\<forall>pv \<in> set kw. \<exists>h. map_of (hints entry) (fst pv) = Some h \<and> plain_primitive h
           \<and> py_isinstance (snd pv) (hint h) = Inr True"
  shows "\<exists>fs. check_data (Suc n) (TyModel name ps) (VDict d) sc False False = Inr (VObj name fs)
           \<and> map fst fs = map fst ps
           \<and> (\<forall>pv \<in> set kw. map_of fs (fst pv) = Some (snd pv))"
proof -
  let ?val = "\<lambda>p. the (map_of kw p)"
  let ?params = "map (\<lambda>pd. (fst pd, ?val (fst pd))) (sig entry)"
  let ?fs = "map (\<lambda>pd. (fst pd, ?val (fst pd))) ps"
  have kw_val: "map_of kw (fst pv) = Some (snd pv)" if "pv \<in> set kw" for pv
    using that assms(4) by simp
  have supplied: "\<exists>v. map_of kw p = Some v \<and> (p, v) \<in> set kw" if "p \<in> set (map fst ps)" for p
  proof -
    from that assms(5) have "p \<in> fst ` set kw"
      by simp
    then obtain pv where "pv \<in> set kw" "fst pv = p"
      by (auto simp: image_iff)
    then show ?thesis using kw_val[of pv] by (metis prod.collapse)
  qed
  have good: "\<exists>h. map_of (hints entry) p = Some h \<and> plain_primitive h
      \<and> py_isinstance (?val p) (hint h) = Inr True" if "p \<in> set (map fst ps)" for p
  proof -
    from supplied[OF that] obtain v where v: "map_of kw p = Some v" "(p, v) \<in> set kw"
      by blast
    with assms(6) show ?thesis by force
  qed
  have "bind_params (sig entry) kw = Inr ?params"
    using supplied assms(2) by (intro bind_params_supplied) auto
  then have bind: "sig_bind (sig entry) d = Inr ?params"
    using assms(2,3,5) by (simp add: sig_bind_def)
  have fields: "check_fields (Suc n) ?params (hints entry) sc False False [] = Inr ([] @ ?params)"
  proof (rule check_fields_all_valid)
    show "\<forall>pv \<in> set ?params. \<exists>h. map_of (hints entry) (fst pv) = Some h \<and> plain_primitive h
             \<and> py_isinstance (snd pv) (hint h) = Inr True"
    proof
      fix pv assume "pv \<in> set ?params"
      then obtain pd where "pd \<in> set (sig entry)" "pv = (fst pd, ?val (fst pd))"
        by auto
      moreover from this have "fst pd \<in> set (map fst ps)"
        using assms(2) by (metis image_eqI list.set_map)
      ultimately show "\<exists>h. map_of (hints entry) (fst pv) = Some h \<and> plain_primitive h
             \<and> py_isinstance (snd pv) (hint h) = Inr True"
        using good by simp
    qed
  qed
  have keys: "map fst ?params = map fst ps"
    using assms(2) by (simp add: comp_def)
  have init: "\<forall>pd \<in> set ps. init_field ?params pd = Inr (fst pd, ?val (fst pd))"
  proof
    fix pd assume pd: "pd \<in> set ps"
    then have m: "fst pd \<in> set (map fst (sig entry))"
      using assms(2) by (metis image_eqI list.set_map)
    have l: "map_of ?params (fst pd) = Some (?val (fst pd))"
      by (rule map_of_tabulated[OF m])
    from pd good[of "fst pd"] have "?val (fst pd) \<noteq> HAS_DEFAULT_FACTORY"
      using primitive_not_marker by (metis image_eqI list.set_map)
    then show "init_field ?params pd = Inr (fst pd, ?val (fst pd))"
      using l by (cases "snd pd") (simp_all add: init_field_def)
  qed
  have "map_result (init_field ?params) ps = Inr ?fs"
    using init by (rule map_result_all)
  then have "call_model name ps [] ?params = Inr (VObj name ?fs)"
    using keys by (simp add: call_model_def)
  then have res: "check_data (Suc n) (TyModel name ps) (VDict d) sc False False = Inr (VObj name ?fs)"
    using assms(1) bind fields
    by (simp add: check_data.simps bind_data_def class_name_def construct_def)
  have fst_fs: "map fst ?fs = map fst ps"
    by (simp add: comp_def)
  have "map_of ?fs (fst pv) = Some (snd pv)" if "pv \<in> set kw" for pv
  proof -
    from that assms(5) have "fst pv \<in> set (map fst ps)"
      by (metis image_eqI list.set_map)
    from map_of_tabulated[OF this, of ?val] kw_val[OF that] show ?thesis
      by simp
  qed
  with res fst_fs show ?thesis by blast
qed

theorem check_data_identity_witness:
  "check_data 1 (TyModel ''Person'' [(''name'', Required)])
      (VDict [(VStr ''name'', VStr ''george'')])
      [(''Person'', \<lparr>sig = [(''name'', None)],
                     hints = [(''name'', Hint TyStr False False False False None [] False)]\<rparr>)]
      False False
     = Inr (VObj ''Person'' [(''name'', VStr ''george'')])"
proof -
  let ?h = "Hint TyStr False False False False None [] False"
  let ?e = "\<lparr>sig = [(''name'', None)], hints = [(''name'', ?h)]\<rparr>"
  let ?ps = "[(''name'', Required)]"
  let ?kw = "[(''name'', VStr ''george'')]"
  have a1: "map_of [(''Person'', ?e)] ''Person'' = Some ?e"
    by simp
  have a2: "map fst (sig ?e) = map fst ?ps"
    by simp
  have a3: "str_keywords [(VStr ''name'', VStr ''george'')] = Some ?kw"
    by simp
  have a4: "distinct (map fst ?kw)"
    by simp
  have a5: "set (map fst ?kw) = set (map fst ?ps)"
    by simp
  have a6: "\<forall>pv \<in> set ?kw. \<exists>h. map_of (hints ?e) (fst pv) = Some h \<and> plain_primitive h
           \<and> py_isinstance (snd pv) (hint h) = Inr True"
    by (simp add: plain_primitive_def)
  from check_data_identity [OF a1 a2 a3 a4 a5 a6, of 0] obtain fs where
    r: "check_data (Suc 0) (TyModel ''Person'' ?ps) (VDict [(VStr ''name'', VStr ''george'')])
          [(''Person'', ?e)] False False = Inr (VObj ''Person'' fs)"
    and k: "map fst fs = [''name'']"
    and v: "map_of fs ''name'' = Some (VStr ''george'')"
    by auto
  from k obtain x where x: "fs = [x]" "fst x = ''name''"
    by (cases fs) auto
  with v have "x = (''name'', VStr ''george'')"
    by (cases x) simp
  with r x show ?thesis by simp
qed

subsection \<open>Error taxonomy\<close>



















section \<open>Properties of the log consumer\<close>

lemma step_after_signal:
  assumes "\<not> run s"
  shows "\<not> run (step s e) \<and> handled (step s e) = handled s
       \<and> (\<exists>new. queue (step s e) = queue s @ new)
       \<and> (status s \<noteq> Running \<longrightarrow> status (step s e) = status s)
       \<and> (status s = Running \<longrightarrow> status (step s e) = (if e = Iterate then Exited else Running))"
  using assms by (cases e) auto

lemma run_events_after_signal:
  assumes "\<not> run s" and "status s = Running"
  shows "handled (run_events s es) = handled s
       \<and> (\<exists>new. queue (run_events s es) = queue s @ new)
       \<and> status (run_events s es) = (if Iterate \<in> set es then Exited else Running)"
  using assms
proof (induction es rule: rev_induct)
  case Nil
  then show ?case by (simp add: run_events_def)
next
  case (snoc e es)
  let ?t = "run_events s es"
  have r: "\<not> run ?t"
    using snoc.prems(1)
  proof (induction es rule: rev_induct)
    case Nil
    then show ?case by (simp add: run_events_def)
  next
    case (snoc x xs)
    then show ?case using step_after_signal[of "run_events s xs" x] by (simp add: run_events_def)
  qed
  have e: "run_events s (es @ [e]) = step ?t e"
    by (simp add: run_events_def)
  from snoc.IH[OF snoc.prems] obtain new where
    h: "handled ?t = handled s" and q: "queue ?t = queue s @ new"
    and st: "status ?t = (if Iterate \<in> set es then Exited else Running)"
    by blast
  from step_after_signal[OF r, of e] obtain new' where
    h': "handled (step ?t e) = handled ?t" and q': "queue (step ?t e) = queue ?t @ new'"
    and s1: "status ?t \<noteq> Running \<longrightarrow> status (step ?t e) = status ?t"
    and s2: "status ?t = Running \<longrightarrow> status (step ?t e) = (if e = Iterate then Exited else Running)"
    by blast
  have "status (step ?t e) = (if Iterate \<in> set (es @ [e]) then Exited else Running)"
    using st s1 s2 by (cases "Iterate \<in> set es") auto
  then show ?case
    using e h h' q q' by simp
qed

text \<open>
  C10, as stated, fails: a record enqueued before the stop signal and not yet dequeued
  when the signal arrives is never handled; the loop leaves at its next test and the
  record stays in the queue.
\<close>

theorem record_enqueued_before_signal_not_handled:
  "run_events init_logger [Enqueue (''sanic.root'', ''started''), Signal, Iterate]
     = \<lparr>run = False, queue = [(''sanic.root'', ''started'')], handled = [], status = Exited\<rparr>"
  by (simp add: run_events_def init_logger_def maxsize_def)

text \<open>
  C10 (amended): the consumer polls the queue without blocking, and once the stop signal
  has arrived it leaves the loop at its next pass, whatever the producers do meanwhile,
  without dequeuing anything more: the records handled are those handled before the
  signal, and the records in the queue at the time of the signal stay in the queue,
  unhandled, in front of those enqueued later.
\<close>

theorem consumer_exits_without_draining:
  assumes "status s = Running"
  shows "handled (run_events (step s Signal) es) = handled s
       \<and> (\<exists>new. queue (run_events (step s Signal) es) = queue s @ new)
       \<and> status (run_events (step s Signal) es) = (if Iterate \<in> set es then Exited else Running)"
proof -
  have a: "\<not> run (step s Signal)" "status (step s Signal) = Running"
    "handled (step s Signal) = handled s" "queue (step s Signal) = queue s"
    using assms by auto
  from run_events_after_signal[OF a(1,2), of es] a(3,4)
  show ?thesis by (simp del: step.simps)
qed

theorem consumer_exits_without_draining_witness:
  "handled (run_events (step (step init_logger (Enqueue (''sanic.root'', ''a''))) Signal)
      [Enqueue (''sanic.root'', ''b''), Iterate]) = []
   \<and> queue (run_events (step (step init_logger (Enqueue (''sanic.root'', ''a''))) Signal)
      [Enqueue (''sanic.root'', ''b''), Iterate]) = [(''sanic.root'', ''a''), (''sanic.root'', ''b'')]
   \<and> status (run_events (step (step init_logger (Enqueue (''sanic.root'', ''a''))) Signal)
      [Enqueue (''sanic.root'', ''b''), Iterate]) = Exited"
proof -
  let ?s = "step init_logger (Enqueue (''sanic.root'', ''a''))"
  have r: "status ?s = Running"
    by (simp add: init_logger_def maxsize_def)
  have q: "queue (run_events (step ?s Signal) [Enqueue (''sanic.root'', ''b''), Iterate])
             = [(''sanic.root'', ''a''), (''sanic.root'', ''b'')]"
    by (simp add: run_events_def init_logger_def maxsize_def)
  from consumer_exits_without_draining [OF r, of "[Enqueue (''sanic.root'', ''b''), Iterate]"] q
  show ?thesis by (simp add: init_logger_def maxsize_def)
qed

end
